theory Spec2Isabelle
  imports Main
begin

section \<open>The reconciler adapter of internal/reconciler/implementation.go\<close>

text \<open>
  The Go method \<^verbatim>\<open>(*Implementation).Reconcile\<close> is embedded as a function from the
  world before the call to an outcome and the world after it. The world holds the heap of
  Kubernetes objects (the code allocates one and hands pointers around) and one trace with
  every effect of the call in program order: log lines, calls of the Getter, of the webhook
  validator and of the event recorder, and sends on the event channel.
\<close>

subsection \<open>Data\<close>

text \<open>\<^verbatim>\<open>types.NamespacedName\<close>: the identity of a resource.\<close>

record NamespacedName =
  Namespace :: string
  Name :: string

text \<open>\<^verbatim>\<open>reconcile.Request\<close> and \<^verbatim>\<open>reconcile.Result\<close> of the controller runtime.\<close>

record Request =
  NamespacedName :: NamespacedName

record Result =
  Requeue :: bool
  RequeueAfter :: nat

definition Result_empty :: Result where
  "Result_empty = \<lparr>Requeue = False, RequeueAfter = 0\<rparr>"

text \<open>
  The contents of a Kubernetes object as far as this package looks at them: its metadata
  (the tests read \<^verbatim>\<open>client.ObjectKeyFromObject\<close>) and the rest of it, kept opaque.
\<close>

record ObjectData =
  ObjectMeta :: NamespacedName
  Spec :: string

definition zero_value :: ObjectData where
  "zero_value = \<lparr>ObjectMeta = \<lparr>Namespace = [], Name = []\<rparr>, Spec = []\<rparr>"

text \<open>
  A non-nil \<^verbatim>\<open>client.Object\<close> interface value: the dynamic type (the struct the pointer
  points to, as \<^verbatim>\<open>reflect.TypeOf(o).Elem()\<close> gives it) and the address of the struct on
  the heap. The heap is a list of cells; an address is an index, and allocation appends.
\<close>

record client_Object =
  dyn_type :: string
  address :: nat

text \<open>
  Go errors. \<^verbatim>\<open>apierrors.IsNotFound\<close> of the Kubernetes API machinery recognises
  a status error whose reason is NotFound; every other error is not one.
\<close>

datatype error = StatusError string string | PlainError string

fun IsNotFound :: "error \<Rightarrow> bool" where
  "IsNotFound (StatusError reason msg) = (reason = ''NotFound'')"
| "IsNotFound (PlainError msg) = False"

text \<open>
  Modelled from the spec: the event types, which package \<^verbatim>\<open>internal/events\<close>
  declares and this file only uses. Section 6 of the specification gives the
  stream as \<^verbatim>\<open>{Upsert{resource}, Delete{kind, identity}}\<close>; the fields are the ones
  Reconcile fills in: \<^verbatim>\<open>UpsertEvent{Resource}\<close> and
  \<^verbatim>\<open>DeleteEvent{Type, NamespacedName}\<close>.
\<close>

datatype event =
  UpsertEvent client_Object
| DeleteEvent client_Object NamespacedName

text \<open>
  The context of the call: whether its \<^verbatim>\<open>Done()\<close> channel is closed, that is, whether
  the context is cancelled. A cancelled context stays cancelled.
\<close>

record Context =
  Done :: bool

text \<open>
  What the Go runtime contributes to the \<^verbatim>\<open>select\<close> statement at the end of Reconcile:
  whether the send on the event channel can proceed (a receiver is waiting, or the buffer has
  room), and which case the runtime picks when both cases can proceed. The Go specification
  leaves that choice to a uniform pseudo-random selection. A \<^verbatim>\<open>select\<close> without a default
  case waits until one of its cases can proceed.
\<close>

record select_env =
  EventCh_ready :: bool
  prefer_send :: bool

text \<open>
  Modelled from the spec: the \<^verbatim>\<open>EventRecorder\<close> interface, declared in another file
  of the package. Section 6 of the specification has \<^verbatim>\<open>recordWarning(object, reason, message)\<close>;
  the record holds the arguments of one \<^verbatim>\<open>Eventf\<close> call as line 108 passes them.
\<close>

record Eventf_args =
  regarding :: "client_Object option"
  eventtype :: string
  reason :: string
  messageFmt :: string
  arg :: error

datatype log_entry = Info string | Error error string

text \<open>
  One observable effect. \<open>GetCalled n obj d\<close> records the identity asked for, the object
  handed to the Getter and what that object held at the time of the call.
\<close>

datatype effect =
  Log log_entry
| GetCalled NamespacedName client_Object ObjectData
| ValidatorCalled client_Object
| Eventf Eventf_args
| Sent event

record world =
  heap :: "ObjectData list"
  trace :: "effect list"

text \<open>
  Modelled from the spec: the \<^verbatim>\<open>Getter\<close> interface, declared in another file of the
  package. Section 6 of the specification has \<^verbatim>\<open>get(identity) -> object | NotFound | Error\<close>:
  the Getter either fails with an error or fills the object it was handed (\<open>Inr\<close> gives the
  contents it writes through the pointer). It is asked with the context, the identity and
  the dynamic type of the object to fill.
\<close>

type_synonym Getter = "Context \<Rightarrow> NamespacedName \<Rightarrow> string \<Rightarrow> error + ObjectData"

text \<open>
  \<^verbatim>\<open>NamespacedNameFilterFunc\<close> and \<^verbatim>\<open>ValidatorFunc\<close>. The validator reads the
  object it is given: its dynamic type and its contents.
\<close>

type_synonym NamespacedNameFilterFunc = "NamespacedName \<Rightarrow> bool \<times> string"

type_synonym ValidatorFunc = "string \<Rightarrow> ObjectData \<Rightarrow> error option"

text \<open>
  \<^verbatim>\<open>Config\<close>. The filter and the validator can be nil, as the source says; the
  Getter, the object type and the event recorder are required. The event channel and the
  event recorder are sinks: what goes into them is in the trace.
\<close>

record Config =
  Getter :: Getter
  ObjectType :: client_Object
  NamespacedNameFilter :: "NamespacedNameFilterFunc option"
  WebhookValidator :: "ValidatorFunc option"

record Implementation =
  cfg :: Config

definition NewImplementation :: "Config \<Rightarrow> Implementation" where
  "NewImplementation c = \<lparr>cfg = c\<rparr>"

text \<open>
  How a call of Reconcile ends: it returns a result and an error (\<open>None\<close> is nil), or it
  stays blocked in the \<^verbatim>\<open>select\<close> for ever because neither case can ever proceed.
\<close>

datatype outcome = Returned Result "error option" | Blocked

subsection \<open>The operations\<close>

definition emit :: "effect \<Rightarrow> world \<Rightarrow> world" where
  "emit x s = s\<lparr>trace := trace s @ [x]\<rparr>"

definition logger_Info :: "string \<Rightarrow> world \<Rightarrow> world" where
  "logger_Info msg s = emit (Log (Info msg)) s"

definition logger_Error :: "error \<Rightarrow> string \<Rightarrow> world \<Rightarrow> world" where
  "logger_Error err msg s = emit (Log (Error err msg)) s"

text \<open>
  \<^verbatim>\<open>newObject\<close>: a fresh zero value of the type the template points to, at a new
  address. The template itself is only asked for its type.
\<close>

definition newObject :: "client_Object \<Rightarrow> world \<Rightarrow> client_Object \<times> world" where
  "newObject objectType s =
     (let t = dyn_type objectType in
      (\<lparr>dyn_type = t, address = length (heap s)\<rparr>, s\<lparr>heap := heap s @ [zero_value]\<rparr>))"

text \<open>
  \<^verbatim>\<open>r.cfg.Getter.Get(ctx, req.NamespacedName, obj)\<close>: on success the Getter has written
  the fetched object through the pointer \<open>obj\<close>.
\<close>

definition Get :: "Config \<Rightarrow> Context \<Rightarrow> NamespacedName \<Rightarrow> client_Object \<Rightarrow> world
    \<Rightarrow> error option \<times> world" where
  "Get c ctx nsname obj s =
     (let s' = emit (GetCalled nsname obj (heap s ! address obj)) s in
      case Getter c ctx nsname (dyn_type obj) of
        Inl err \<Rightarrow> (Some err, s')
      | Inr d \<Rightarrow> (None, s'\<lparr>heap := (heap s')[address obj := d]\<rparr>))"

text \<open>\<^verbatim>\<open>r.cfg.WebhookValidator(obj)\<close>: the validator reads the object behind the pointer.\<close>

definition validate :: "ValidatorFunc \<Rightarrow> client_Object \<Rightarrow> world \<Rightarrow> error option \<times> world" where
  "validate v obj s = (v (dyn_type obj) (heap s ! address obj), emit (ValidatorCalled obj) s)"

definition webhookValidationErrorLogMsg :: string where
  "webhookValidationErrorLogMsg =
     ''Rejected the resource because the Gateway API webhook failed to reject it with '' @
     ''a validation error; make sure the webhook is installed and running correctly; '' @
     ''NKG will delete any existing NGINX configuration that corresponds to the resource''"

definition EventTypeWarning :: string where
  "EventTypeWarning = ''Warning''"

definition EventRecorder_Eventf :: "client_Object option \<Rightarrow> string \<Rightarrow> string \<Rightarrow> string \<Rightarrow> error
    \<Rightarrow> world \<Rightarrow> world" where
  "EventRecorder_Eventf obj ty rsn fmt a s =
     emit (Eventf \<lparr>regarding = obj, eventtype = ty, reason = rsn, messageFmt = fmt, arg = a\<rparr>) s"

text \<open>
  The \<^verbatim>\<open>select\<close> between \<^verbatim>\<open>ctx.Done()\<close> and the send of \<open>e\<close>. \<open>Some True\<close>: the
  send was chosen and \<open>e\<close> is on the channel; \<open>Some False\<close>: the cancellation was chosen;
  \<open>None\<close>: neither case can proceed and the goroutine stays blocked.
\<close>

definition select_send :: "Context \<Rightarrow> select_env \<Rightarrow> event \<Rightarrow> world \<Rightarrow> bool option \<times> world" where
  "select_send ctx env e s =
     (if Done ctx \<and> EventCh_ready env then
        (if prefer_send env then (Some True, emit (Sent e) s) else (Some False, s))
      else if Done ctx then (Some False, s)
      else if EventCh_ready env then (Some True, emit (Sent e) s)
      else (None, s))"

text \<open>
  Lines 83 to 88: \<open>Some msg\<close> when a filter is configured and rejects the identity.
\<close>

definition filter_verdict :: "Config \<Rightarrow> NamespacedName \<Rightarrow> string option" where
  "filter_verdict c n =
     (case NamespacedNameFilter c of
        None \<Rightarrow> None
      | Some f \<Rightarrow> (case f n of (allow, msg) \<Rightarrow> (if \<not> allow then Some msg else None)))"

text \<open>
  Lines 92 to 99: an error that is not a not-found error leaves the function (\<open>Inl\<close>);
  a not-found error sets \<open>obj\<close> to nil; no error keeps the fetched object.
\<close>

definition after_Get :: "error option \<Rightarrow> client_Object \<Rightarrow> error + client_Object option" where
  "after_Get err fresh =
     (case err of
        None \<Rightarrow> Inr (Some fresh)
      | Some e \<Rightarrow> (if \<not> IsNotFound e then Inl e else Inr None))"

text \<open>Lines 101 to 104: the validator runs only on an object that was found.\<close>

definition run_validator :: "Config \<Rightarrow> client_Object option \<Rightarrow> world \<Rightarrow> error option \<times> world" where
  "run_validator c obj s =
     (case obj of
        None \<Rightarrow> (None, s)
      | Some p \<Rightarrow> (case WebhookValidator c of None \<Rightarrow> (None, s) | Some v \<Rightarrow> validate v p s))"

text \<open>Lines 106 to 110: a validation error is logged and recorded as a warning event.\<close>

definition report_rejection :: "error option \<Rightarrow> client_Object option \<Rightarrow> world \<Rightarrow> world" where
  "report_rejection validationError obj s =
     (case validationError of
        None \<Rightarrow> s
      | Some ve \<Rightarrow>
          EventRecorder_Eventf obj EventTypeWarning ''Rejected''
            (webhookValidationErrorLogMsg @ ''; validation error: %v'') ve
            (logger_Error ve webhookValidationErrorLogMsg s))"

text \<open>Lines 112 to 127: the event and the word for the last log line.\<close>

definition choose_event :: "Config \<Rightarrow> Request \<Rightarrow> client_Object option \<Rightarrow> error option
    \<Rightarrow> event \<times> string" where
  "choose_event c req obj validationError =
     (case obj of
        None \<Rightarrow> (DeleteEvent (ObjectType c) (NamespacedName req), ''Deleted'')
      | Some p \<Rightarrow>
          (case validationError of
             Some ve \<Rightarrow> (DeleteEvent (ObjectType c) (NamespacedName req), ''Deleted'')
           | None \<Rightarrow> (UpsertEvent p, ''Upserted'')))"

text \<open>Lines 129 to 138: the select, the last log line and the return.\<close>

definition send_or_cancel :: "Context \<Rightarrow> select_env \<Rightarrow> event \<times> string \<Rightarrow> world
    \<Rightarrow> outcome \<times> world" where
  "send_or_cancel ctx env eop s =
     (case select_send ctx env (fst eop) s of
        (None, s') \<Rightarrow> (Blocked, s')
      | (Some chosen, s') \<Rightarrow>
          (if chosen
           then (Returned Result_empty None, logger_Info (snd eop @ '' the resource'') s')
           else (Returned Result_empty None,
                 logger_Info
                   ''Did not process the resource because the context was canceled'' s')))"

definition Reconcile :: "Implementation \<Rightarrow> Context \<Rightarrow> select_env \<Rightarrow> Request \<Rightarrow> world
    \<Rightarrow> outcome \<times> world" where
  "Reconcile r ctx env req s0 =
     (let s1 = logger_Info ''Reconciling the resource'' s0 in
      (case filter_verdict (cfg r) (NamespacedName req) of
         Some msg \<Rightarrow> (Returned Result_empty None, logger_Info msg s1)
       | None \<Rightarrow>
           (let (fresh, s2) = newObject (ObjectType (cfg r)) s1;
                (err, s3) = Get (cfg r) ctx (NamespacedName req) fresh s2
            in (case after_Get err fresh of
                  Inl e \<Rightarrow>
                    (Returned Result_empty (Some e),
                     logger_Error e ''Failed to get the resource'' s3)
                | Inr obj \<Rightarrow>
                    (let (validationError, s4) = run_validator (cfg r) obj s3;
                         s5 = report_rejection validationError obj s4
                     in send_or_cancel ctx env
                          (choose_event (cfg r) req obj validationError) s5)))))"

subsection \<open>What an observer sees in the trace\<close>

fun sent :: "effect list \<Rightarrow> event list" where
  "sent [] = []"
| "sent (Sent e # xs) = e # sent xs"
| "sent (x # xs) = sent xs"

fun recorded :: "effect list \<Rightarrow> Eventf_args list" where
  "recorded [] = []"
| "recorded (Eventf a # xs) = a # recorded xs"
| "recorded (x # xs) = recorded xs"

fun getter_calls :: "effect list \<Rightarrow> (NamespacedName \<times> client_Object \<times> ObjectData) list" where
  "getter_calls [] = []"
| "getter_calls (GetCalled n obj d # xs) = (n, obj, d) # getter_calls xs"
| "getter_calls (x # xs) = getter_calls xs"

fun validator_calls :: "effect list \<Rightarrow> client_Object list" where
  "validator_calls [] = []"
| "validator_calls (ValidatorCalled obj # xs) = obj # validator_calls xs"
| "validator_calls (x # xs) = validator_calls xs"

definition EventCh :: "world \<Rightarrow> event list" where
  "EventCh s = sent (trace s)"

definition Eventf_calls :: "world \<Rightarrow> Eventf_args list" where
  "Eventf_calls s = recorded (trace s)"

definition Get_calls :: "world \<Rightarrow> (NamespacedName \<times> client_Object \<times> ObjectData) list" where
  "Get_calls s = getter_calls (trace s)"

definition Validator_calls :: "world \<Rightarrow> client_Object list" where
  "Validator_calls s = validator_calls (trace s)"

text \<open>Whether the configured filter lets an identity through (no filter lets everything through).\<close>

definition filter_allows :: "Config \<Rightarrow> NamespacedName \<Rightarrow> bool" where
  "filter_allows c n = (case NamespacedNameFilter c of None \<Rightarrow> True | Some f \<Rightarrow> fst (f n))"

subsection \<open>Vocabulary of the properties\<close>

text \<open>
  The fetch fails, in the sense of lines 92 to 96: the Getter returns an error that is not
  a not-found error.
\<close>

definition fetch_fails :: "Config \<Rightarrow> Context \<Rightarrow> NamespacedName \<Rightarrow> bool" where
  "fetch_fails c ctx n =
     (case Getter c ctx n (dyn_type (ObjectType c)) of
        Inl e \<Rightarrow> \<not> IsNotFound e
      | Inr d \<Rightarrow> False)"

text \<open>The object is found, and no configured validator rejects it.\<close>

definition found_and_valid :: "Config \<Rightarrow> Context \<Rightarrow> NamespacedName \<Rightarrow> bool" where
  "found_and_valid c ctx n =
     (case Getter c ctx n (dyn_type (ObjectType c)) of
        Inl e \<Rightarrow> False
      | Inr d \<Rightarrow> (case WebhookValidator c of
                    None \<Rightarrow> True
                  | Some v \<Rightarrow> v (dyn_type (ObjectType c)) d = None))"

text \<open>The world \<open>s\<close> with more cells on the heap and more effects in the trace.\<close>

definition after :: "world \<Rightarrow> ObjectData list \<Rightarrow> effect list \<Rightarrow> world" where
  "after s cells xs = \<lparr>heap = heap s @ cells, trace = trace s @ xs\<rparr>"

text \<open>The pointer \<^verbatim>\<open>newObject\<close> returns when called in world \<open>s\<close>.\<close>

definition fresh_object :: "Implementation \<Rightarrow> world \<Rightarrow> client_Object" where
  "fresh_object r s = \<lparr>dyn_type = dyn_type (ObjectType (cfg r)), address = length (heap s)\<rparr>"

text \<open>The arguments of the \<^verbatim>\<open>Eventf\<close> call of lines 108 and 109.\<close>

definition rejection_warning :: "client_Object \<Rightarrow> error \<Rightarrow> Eventf_args" where
  "rejection_warning obj ve =
     \<lparr>regarding = Some obj, eventtype = EventTypeWarning, reason = ''Rejected'',
      messageFmt = webhookValidationErrorLogMsg @ ''; validation error: %v'', arg = ve\<rparr>"

text \<open>
  The event the specification asks for: Upsert if found and valid, Delete otherwise.
\<close>

definition offered_event :: "Implementation \<Rightarrow> Context \<Rightarrow> Request \<Rightarrow> world \<Rightarrow> event" where
  "offered_event r ctx req s =
     (if found_and_valid (cfg r) ctx (NamespacedName req)
      then UpsertEvent (fresh_object r s)
      else DeleteEvent (ObjectType (cfg r)) (NamespacedName req))"

subsection \<open>The fixtures of implementation_test.go\<close>

text \<open>
  The routes, the validator, the filter and the fake Getters of the test suite, and the three
  configurations it builds. The template \<^verbatim>\<open>&v1beta1.HTTPRoute{}\<close> is the cell at address 0
  of the initial heap. \<open>receiver_waiting\<close> is a channel whose consumer is receiving, as
  \<^verbatim>\<open>Eventually(eventCh).Should(Receive(...))\<close> does; \<open>nobody_receiving\<close> is the unbuffered
  channel nobody reads.
\<close>

definition hr1NsName :: NamespacedName where
  "hr1NsName = \<lparr>Namespace = ''test'', Name = ''hr-1''\<rparr>"

definition hr1 :: ObjectData where
  "hr1 = \<lparr>ObjectMeta = hr1NsName, Spec = []\<rparr>"

definition hr2NsName :: NamespacedName where
  "hr2NsName = \<lparr>Namespace = ''test'', Name = ''hr-2''\<rparr>"

definition hr2 :: ObjectData where
  "hr2 = \<lparr>ObjectMeta = hr2NsName, Spec = []\<rparr>"

definition hr2IsInvalidValidator :: ValidatorFunc where
  "hr2IsInvalidValidator t obj =
     (if ObjectMeta obj = hr2NsName then Some (PlainError ''test'') else None)"

definition getReturnsHRForHR :: "ObjectData \<Rightarrow> Getter" where
  "getReturnsHRForHR hr ctx nsname t = Inr hr"

definition notFound :: error where
  "notFound = StatusError ''NotFound'' ''not found''"

definition getReturnsNotFoundErrorForHR :: "ObjectData \<Rightarrow> Getter" where
  "getReturnsNotFoundErrorForHR hr ctx nsname t = Inl notFound"

definition getError :: error where
  "getError = PlainError ''get error''"

definition getReturnsGetError :: Getter where
  "getReturnsGetError ctx nsname t = Inl getError"

definition hr1_only :: NamespacedNameFilterFunc where
  "hr1_only nsname = (if nsname \<noteq> hr1NsName then (False, ''ignore'') else (True, []))"

definition HTTPRoute_template :: client_Object where
  "HTTPRoute_template = \<lparr>dyn_type = ''HTTPRoute'', address = 0\<rparr>"

definition rec_plain :: "Getter \<Rightarrow> Implementation" where
  "rec_plain g = NewImplementation
     \<lparr>Getter = g, ObjectType = HTTPRoute_template,
      NamespacedNameFilter = None, WebhookValidator = None\<rparr>"

definition rec_filtering :: "Getter \<Rightarrow> Implementation" where
  "rec_filtering g = NewImplementation
     \<lparr>Getter = g, ObjectType = HTTPRoute_template,
      NamespacedNameFilter = Some hr1_only, WebhookValidator = None\<rparr>"

definition rec_validating :: "Getter \<Rightarrow> Implementation" where
  "rec_validating g = NewImplementation
     \<lparr>Getter = g, ObjectType = HTTPRoute_template,
      NamespacedNameFilter = None, WebhookValidator = Some hr2IsInvalidValidator\<rparr>"

definition Background :: Context where
  "Background = \<lparr>Done = False\<rparr>"

definition cancelled :: Context where
  "cancelled = \<lparr>Done = True\<rparr>"

definition receiver_waiting :: select_env where
  "receiver_waiting = \<lparr>EventCh_ready = True, prefer_send = True\<rparr>"

definition nobody_receiving :: select_env where
  "nobody_receiving = \<lparr>EventCh_ready = False, prefer_send = False\<rparr>"

definition request :: "NamespacedName \<Rightarrow> Request" where
  "request n = \<lparr>NamespacedName = n\<rparr>"

definition world0 :: world where
  "world0 = \<lparr>heap = [zero_value], trace = []\<rparr>"

section \<open>Properties\<close>

subsection \<open>Reading the trace\<close>

lemma sent_append: "sent (xs @ ys) = sent xs @ sent ys"
  by (induction xs rule: sent.induct) simp_all

lemma recorded_append: "recorded (xs @ ys) = recorded xs @ recorded ys"
  by (induction xs rule: recorded.induct) simp_all

lemma getter_calls_append: "getter_calls (xs @ ys) = getter_calls xs @ getter_calls ys"
  by (induction xs rule: getter_calls.induct) simp_all

lemma validator_calls_append:
  "validator_calls (xs @ ys) = validator_calls xs @ validator_calls ys"
  by (induction xs rule: validator_calls.induct) simp_all

lemma heap_after [simp]: "heap (after s cells xs) = heap s @ cells"
  by (simp add: after_def)

lemma trace_after [simp]: "trace (after s cells xs) = trace s @ xs"
  by (simp add: after_def)

lemma EventCh_after: "EventCh (after s cells xs) = EventCh s @ sent xs"
  by (simp add: EventCh_def sent_append)

lemma Eventf_calls_after: "Eventf_calls (after s cells xs) = Eventf_calls s @ recorded xs"
  by (simp add: Eventf_calls_def recorded_append)

lemma Get_calls_after: "Get_calls (after s cells xs) = Get_calls s @ getter_calls xs"
  by (simp add: Get_calls_def getter_calls_append)

lemma Validator_calls_after:
  "Validator_calls (after s cells xs) = Validator_calls s @ validator_calls xs"
  by (simp add: Validator_calls_def validator_calls_append)

lemmas observe_after = EventCh_after Eventf_calls_after Get_calls_after Validator_calls_after

lemmas step_defs = after_Get_def run_validator_def report_rejection_def
  choose_event_def newObject_def Get_def validate_def
  EventRecorder_Eventf_def logger_Info_def logger_Error_def emit_def

lemmas fixture_defs = hr1NsName_def hr1_def hr2NsName_def hr2_def hr2IsInvalidValidator_def
  getReturnsHRForHR_def notFound_def getReturnsNotFoundErrorForHR_def getError_def
  getReturnsGetError_def hr1_only_def HTTPRoute_template_def rec_plain_def rec_filtering_def
  rec_validating_def Background_def cancelled_def receiver_waiting_def nobody_receiving_def
  request_def world0_def NewImplementation_def

subsection \<open>The paths through Reconcile\<close>

lemma filter_verdict_None: "filter_allows c n \<Longrightarrow> filter_verdict c n = None"
  by (auto simp: filter_verdict_def filter_allows_def split: option.splits prod.splits)

lemma filter_verdict_Some:
  "\<not> filter_allows c n \<Longrightarrow> \<exists>msg. filter_verdict c n = Some msg"
  by (auto simp: filter_verdict_def filter_allows_def split: option.splits prod.splits)

lemma Reconcile_filtered:
  assumes "filter_verdict (cfg r) (NamespacedName req) = Some msg"
  shows "Reconcile r ctx env req s =
           (Returned Result_empty None,
            after s [] [Log (Info ''Reconciling the resource''), Log (Info msg)])"
  using assms by (cases s) (simp add: Reconcile_def step_defs after_def)

lemma Reconcile_fetch_error:
  assumes "filter_allows (cfg r) (NamespacedName req)"
    and "Getter (cfg r) ctx (NamespacedName req) (dyn_type (ObjectType (cfg r))) = Inl e"
    and "\<not> IsNotFound e"
  shows "Reconcile r ctx env req s =
           (Returned Result_empty (Some e),
            after s [zero_value]
              [Log (Info ''Reconciling the resource''),
               GetCalled (NamespacedName req) (fresh_object r s) zero_value,
               Log (Error e ''Failed to get the resource'')])"
  using assms
  by (cases s) (simp add: Reconcile_def step_defs after_def fresh_object_def filter_verdict_None)

lemma Reconcile_not_found:
  assumes "filter_allows (cfg r) (NamespacedName req)"
    and "Getter (cfg r) ctx (NamespacedName req) (dyn_type (ObjectType (cfg r))) = Inl e"
    and "IsNotFound e"
  shows "Reconcile r ctx env req s =
           send_or_cancel ctx env
             (DeleteEvent (ObjectType (cfg r)) (NamespacedName req), ''Deleted'')
             (after s [zero_value]
               [Log (Info ''Reconciling the resource''),
                GetCalled (NamespacedName req) (fresh_object r s) zero_value])"
  using assms
  by (cases s) (simp add: Reconcile_def step_defs after_def fresh_object_def filter_verdict_None)

lemma Reconcile_found_unvalidated:
  assumes "filter_allows (cfg r) (NamespacedName req)"
    and "Getter (cfg r) ctx (NamespacedName req) (dyn_type (ObjectType (cfg r))) = Inr d"
    and "WebhookValidator (cfg r) = None"
  shows "Reconcile r ctx env req s =
           send_or_cancel ctx env (UpsertEvent (fresh_object r s), ''Upserted'')
             (after s [d]
               [Log (Info ''Reconciling the resource''),
                GetCalled (NamespacedName req) (fresh_object r s) zero_value])"
  using assms
  by (cases s) (simp add: Reconcile_def step_defs after_def fresh_object_def filter_verdict_None)

lemma Reconcile_found_valid:
  assumes "filter_allows (cfg r) (NamespacedName req)"
    and "Getter (cfg r) ctx (NamespacedName req) (dyn_type (ObjectType (cfg r))) = Inr d"
    and "WebhookValidator (cfg r) = Some v"
    and "v (dyn_type (ObjectType (cfg r))) d = None"
  shows "Reconcile r ctx env req s =
           send_or_cancel ctx env (UpsertEvent (fresh_object r s), ''Upserted'')
             (after s [d]
               [Log (Info ''Reconciling the resource''),
                GetCalled (NamespacedName req) (fresh_object r s) zero_value,
                ValidatorCalled (fresh_object r s)])"
  using assms
  by (cases s) (simp add: Reconcile_def step_defs after_def fresh_object_def filter_verdict_None)

lemma Reconcile_found_invalid:
  assumes "filter_allows (cfg r) (NamespacedName req)"
    and "Getter (cfg r) ctx (NamespacedName req) (dyn_type (ObjectType (cfg r))) = Inr d"
    and "WebhookValidator (cfg r) = Some v"
    and "v (dyn_type (ObjectType (cfg r))) d = Some ve"
  shows "Reconcile r ctx env req s =
           send_or_cancel ctx env
             (DeleteEvent (ObjectType (cfg r)) (NamespacedName req), ''Deleted'')
             (after s [d]
               [Log (Info ''Reconciling the resource''),
                GetCalled (NamespacedName req) (fresh_object r s) zero_value,
                ValidatorCalled (fresh_object r s),
                Log (Error ve webhookValidationErrorLogMsg),
                Eventf (rejection_warning (fresh_object r s) ve)])"
  using assms
  by (cases s) (simp add: Reconcile_def step_defs after_def fresh_object_def filter_verdict_None
      rejection_warning_def)

lemma send_or_cancel_cases:
  "send_or_cancel ctx env (e, opn) s =
     (if EventCh_ready env \<and> (Done ctx \<longrightarrow> prefer_send env)
      then (Returned Result_empty None,
            after s [] [Sent e, Log (Info (opn @ '' the resource''))])
      else if Done ctx
      then (Returned Result_empty None,
            after s []
              [Log (Info ''Did not process the resource because the context was canceled'')])
      else (Blocked, after s [] []))"
  by (cases s) (auto simp add: send_or_cancel_def select_send_def logger_Info_def emit_def after_def)

lemma Reconcile_emission:
  assumes "filter_allows (cfg r) (NamespacedName req)"
    and "\<not> fetch_fails (cfg r) ctx (NamespacedName req)"
  shows "\<exists>cell pre opn.
           Reconcile r ctx env req s =
             send_or_cancel ctx env (offered_event r ctx req s, opn) (after s [cell] pre) \<and>
           sent pre = [] \<and>
           (case Getter (cfg r) ctx (NamespacedName req) (dyn_type (ObjectType (cfg r))) of
              Inl e \<Rightarrow> cell = zero_value | Inr d \<Rightarrow> cell = d) \<and>
           getter_calls pre = [(NamespacedName req, fresh_object r s, zero_value)]"
proof (cases "Getter (cfg r) ctx (NamespacedName req) (dyn_type (ObjectType (cfg r)))")
  case (Inl e)
  with assms(2) have nf: "IsNotFound e" by (simp add: fetch_fails_def)
  show ?thesis
    using Reconcile_not_found [OF assms(1) Inl nf, of env s] Inl
    by (simp add: offered_event_def found_and_valid_def) force
next
  case (Inr d)
  show ?thesis
  proof (cases "WebhookValidator (cfg r)")
    case None
    show ?thesis
      using Reconcile_found_unvalidated [OF assms(1) Inr None, of env s] Inr None
      by (simp add: offered_event_def found_and_valid_def) force
  next
    case (Some v)
    show ?thesis
    proof (cases "v (dyn_type (ObjectType (cfg r))) d")
      case None
      show ?thesis
        using Reconcile_found_valid [OF assms(1) Inr Some None, of env s] Inr Some None
        by (simp add: offered_event_def found_and_valid_def) force
    next
      case (Some ve)
      show ?thesis
        using Reconcile_found_invalid [OF assms(1) Inr \<open>WebhookValidator (cfg r) = Some v\<close> Some,
            of env s] Inr \<open>WebhookValidator (cfg r) = Some v\<close> Some
        by (simp add: offered_event_def found_and_valid_def) force
    qed
  qed
qed

lemma after_after: "after (after s cells xs) cells' ys = after s (cells @ cells') (xs @ ys)"
  by (simp add: after_def)

lemma fetch_fails_error:
  assumes "fetch_fails c ctx n"
  obtains e where "Getter c ctx n (dyn_type (ObjectType c)) = Inl e" and "\<not> IsNotFound e"
  using assms by (auto simp: fetch_fails_def split: sum.splits)

lemma Reconcile_world:
  obtains cells xs where
    "snd (Reconcile r ctx env req s) = after s cells xs"
    and "cells = [] \<or>
         (\<exists>cell. cells = [cell] \<and>
            (\<forall>d. Getter (cfg r) ctx (NamespacedName req) (dyn_type (ObjectType (cfg r))) = Inr d
                  \<longrightarrow> cell = d))"
    and "getter_calls xs = [] \<or>
         getter_calls xs = [(NamespacedName req, fresh_object r s, zero_value)]"
    and "sent xs = [] \<or>
         (sent xs = [offered_event r ctx req s] \<and> filter_allows (cfg r) (NamespacedName req) \<and>
          \<not> fetch_fails (cfg r) ctx (NamespacedName req) \<and> length cells = 1)"
proof (cases "filter_allows (cfg r) (NamespacedName req)")
  case False
  then obtain msg where "filter_verdict (cfg r) (NamespacedName req) = Some msg"
    using filter_verdict_Some by blast
  then have "snd (Reconcile r ctx env req s) =
      after s [] [Log (Info ''Reconciling the resource''), Log (Info msg)]"
    by (simp add: Reconcile_filtered)
  then show ?thesis by (rule that) simp_all
next
  case allowed: True
  show ?thesis
  proof (cases "fetch_fails (cfg r) ctx (NamespacedName req)")
    case True
    then obtain e where
      e: "Getter (cfg r) ctx (NamespacedName req) (dyn_type (ObjectType (cfg r))) = Inl e"
      "\<not> IsNotFound e"
      by (rule fetch_fails_error)
    have "snd (Reconcile r ctx env req s) =
        after s [zero_value]
          [Log (Info ''Reconciling the resource''),
           GetCalled (NamespacedName req) (fresh_object r s) zero_value,
           Log (Error e ''Failed to get the resource'')]"
      by (simp add: Reconcile_fetch_error [OF allowed e])
    then show ?thesis by (rule that) (simp_all add: e)
  next
    case False
    from Reconcile_emission [OF allowed False, of env s] obtain cell pre opn where
      R: "Reconcile r ctx env req s =
           send_or_cancel ctx env (offered_event r ctx req s, opn) (after s [cell] pre)"
      and pre: "sent pre = []"
        "getter_calls pre = [(NamespacedName req, fresh_object r s, zero_value)]"
      and cell: "case Getter (cfg r) ctx (NamespacedName req) (dyn_type (ObjectType (cfg r))) of
                   Inl e \<Rightarrow> cell = zero_value | Inr d \<Rightarrow> cell = d"
      by blast
    define post where "post =
      (if EventCh_ready env \<and> (Done ctx \<longrightarrow> prefer_send env)
       then [Sent (offered_event r ctx req s), Log (Info (opn @ '' the resource''))]
       else if Done ctx
       then [Log (Info ''Did not process the resource because the context was canceled'')]
       else [])"
    have "snd (Reconcile r ctx env req s) = after s [cell] (pre @ post)"
      by (simp add: R send_or_cancel_cases after_after post_def)
    then show ?thesis
    proof (rule that)
      show "[cell] = [] \<or>
         (\<exists>c. [cell] = [c] \<and>
            (\<forall>d. Getter (cfg r) ctx (NamespacedName req) (dyn_type (ObjectType (cfg r))) = Inr d
                  \<longrightarrow> c = d))"
        using cell by auto
      show "getter_calls (pre @ post) = [] \<or>
         getter_calls (pre @ post) = [(NamespacedName req, fresh_object r s, zero_value)]"
        by (simp add: getter_calls_append pre post_def)
      show "sent (pre @ post) = [] \<or>
         (sent (pre @ post) = [offered_event r ctx req s] \<and>
          filter_allows (cfg r) (NamespacedName req) \<and>
          \<not> fetch_fails (cfg r) ctx (NamespacedName req) \<and> length [cell] = 1)"
        using allowed False by (simp add: sent_append pre post_def)
    qed
  qed
qed

section \<open>The claims\<close>

text \<open>
  C1. A fetch that returns not-found, for an identity the filter lets through and a context
  that is not cancelled, yields exactly one DeleteEvent on the event channel and a nil
  error. The send of line 133 is a blocking send: it completes when the channel takes the
  event, which is the hypothesis \<open>EventCh_ready env\<close>.
\<close>

theorem Reconcile_not_found_emits_one_DeleteEvent:
  assumes "filter_allows (cfg r) (NamespacedName req)"
    and "Getter (cfg r) ctx (NamespacedName req) (dyn_type (ObjectType (cfg r))) = Inl e"
    and "IsNotFound e"
    and "\<not> Done ctx"
    and "EventCh_ready env"
  shows "fst (Reconcile r ctx env req s) = Returned Result_empty None \<and>
         EventCh (snd (Reconcile r ctx env req s)) =
           EventCh s @ [DeleteEvent (ObjectType (cfg r)) (NamespacedName req)]"
  using assms by (simp add: Reconcile_not_found send_or_cancel_cases observe_after)

theorem Reconcile_not_found_emits_one_DeleteEvent_witness:
  "filter_allows (cfg (rec_plain (getReturnsNotFoundErrorForHR hr1)))
     (NamespacedName (request hr1NsName)) \<and>
   IsNotFound notFound \<and> \<not> Done Background \<and> EventCh_ready receiver_waiting \<and>
   fst (Reconcile (rec_plain (getReturnsNotFoundErrorForHR hr1)) Background receiver_waiting
          (request hr1NsName) world0) = Returned Result_empty None \<and>
   EventCh (snd (Reconcile (rec_plain (getReturnsNotFoundErrorForHR hr1)) Background
          receiver_waiting (request hr1NsName) world0)) =
     [DeleteEvent HTTPRoute_template hr1NsName]"
  using Reconcile_not_found_emits_one_DeleteEvent
    [of "rec_plain (getReturnsNotFoundErrorForHR hr1)" "request hr1NsName" Background
      notFound receiver_waiting world0]
  by (simp add: fixture_defs filter_allows_def EventCh_def)

text \<open>
  C2. When the object is fetched and the configured validator returns an error, Reconcile
  sends a DeleteEvent for the identity, not an UpsertEvent, and records exactly one warning
  through the event recorder; a delete after a not-found fetch (the second call, \<open>r'\<close>)
  records none.
\<close>

theorem validation_failure_deletes_and_warns:
  assumes "filter_allows (cfg r) (NamespacedName req)"
    and "Getter (cfg r) ctx (NamespacedName req) (dyn_type (ObjectType (cfg r))) = Inr d"
    and "WebhookValidator (cfg r) = Some v"
    and "v (dyn_type (ObjectType (cfg r))) d = Some ve"
    and "\<not> Done ctx"
    and "EventCh_ready env"
    and "filter_allows (cfg r') (NamespacedName req')"
    and "Getter (cfg r') ctx' (NamespacedName req') (dyn_type (ObjectType (cfg r'))) = Inl e"
    and "IsNotFound e"
  shows "fst (Reconcile r ctx env req s) = Returned Result_empty None \<and>
         EventCh (snd (Reconcile r ctx env req s)) =
           EventCh s @ [DeleteEvent (ObjectType (cfg r)) (NamespacedName req)] \<and>
         Eventf_calls (snd (Reconcile r ctx env req s)) =
           Eventf_calls s @ [rejection_warning (fresh_object r s) ve] \<and>
         Eventf_calls (snd (Reconcile r' ctx' env' req' s')) = Eventf_calls s'"
  using assms
  by (simp add: Reconcile_found_invalid Reconcile_not_found send_or_cancel_cases observe_after)

theorem validation_failure_deletes_and_warns_witness:
  "filter_allows (cfg (rec_validating (getReturnsHRForHR hr2))) (NamespacedName (request hr2NsName)) \<and>
   hr2IsInvalidValidator ''HTTPRoute'' hr2 = Some (PlainError ''test'') \<and>
   \<not> Done Background \<and> EventCh_ready receiver_waiting \<and> IsNotFound notFound \<and>
   fst (Reconcile (rec_validating (getReturnsHRForHR hr2)) Background receiver_waiting
          (request hr2NsName) world0) = Returned Result_empty None \<and>
   EventCh (snd (Reconcile (rec_validating (getReturnsHRForHR hr2)) Background receiver_waiting
          (request hr2NsName) world0)) = [DeleteEvent HTTPRoute_template hr2NsName] \<and>
   Eventf_calls (snd (Reconcile (rec_validating (getReturnsHRForHR hr2)) Background
          receiver_waiting (request hr2NsName) world0)) =
     [rejection_warning \<lparr>dyn_type = ''HTTPRoute'', address = 1\<rparr> (PlainError ''test'')] \<and>
   Eventf_calls (snd (Reconcile (rec_validating (getReturnsNotFoundErrorForHR hr2)) Background
          receiver_waiting (request hr2NsName) world0)) = []"
  using validation_failure_deletes_and_warns
    [of "rec_validating (getReturnsHRForHR hr2)" "request hr2NsName" Background hr2
      hr2IsInvalidValidator "PlainError ''test''" receiver_waiting
      "rec_validating (getReturnsNotFoundErrorForHR hr2)" "request hr2NsName" Background
      notFound world0 receiver_waiting world0]
  by (simp add: fixture_defs filter_allows_def EventCh_def Eventf_calls_def fresh_object_def)

text \<open>
  C3 as stated says that no event is emitted once the context is cancelled. In Go, a
  \<^verbatim>\<open>select\<close> with several cases that can proceed picks one of them at random. With the
  context cancelled and a receiver waiting on the channel, the send of line 133 can be the
  case picked, and the event is on the channel.
\<close>

theorem cancelled_context_can_still_send:
  "Done cancelled \<and>
   filter_allows (cfg (rec_validating (getReturnsHRForHR hr1))) (NamespacedName (request hr1NsName)) \<and>
   \<not> fetch_fails (cfg (rec_validating (getReturnsHRForHR hr1))) cancelled
       (NamespacedName (request hr1NsName)) \<and>
   EventCh world0 = [] \<and>
   EventCh (snd (Reconcile (rec_validating (getReturnsHRForHR hr1)) cancelled receiver_waiting
          (request hr1NsName) world0)) =
     [UpsertEvent \<lparr>dyn_type = ''HTTPRoute'', address = 1\<rparr>]"
  by (simp add: fixture_defs filter_allows_def fetch_fails_def EventCh_def Reconcile_def
      filter_verdict_def send_or_cancel_def select_send_def step_defs)

text \<open>
  C3, as amended. With a context that is already cancelled, a call that reaches the select
  returns with a nil error and is never blocked. It sends nothing when the channel cannot
  take the event, and nothing when the runtime picks the cancellation; when the channel can
  take the event and the runtime picks the send, the event is sent.
\<close>

theorem cancelled_context_never_blocks:
  assumes "Done ctx"
    and "filter_allows (cfg r) (NamespacedName req)"
    and "\<not> fetch_fails (cfg r) ctx (NamespacedName req)"
  shows "fst (Reconcile r ctx env req s) = Returned Result_empty None \<and>
         (\<not> EventCh_ready env \<longrightarrow> EventCh (snd (Reconcile r ctx env req s)) = EventCh s) \<and>
         (\<not> prefer_send env \<longrightarrow> EventCh (snd (Reconcile r ctx env req s)) = EventCh s) \<and>
         (EventCh_ready env \<and> prefer_send env \<longrightarrow>
            EventCh (snd (Reconcile r ctx env req s)) = EventCh s @ [offered_event r ctx req s])"
proof -
  from Reconcile_emission [OF assms(2,3), of env s] obtain cell pre opn where
    "Reconcile r ctx env req s =
       send_or_cancel ctx env (offered_event r ctx req s, opn) (after s [cell] pre)"
    and "sent pre = []"
    by blast
  with assms(1) show ?thesis
    by (simp add: send_or_cancel_cases observe_after)
qed

theorem cancelled_context_never_blocks_witness:
  "Done cancelled \<and>
   filter_allows (cfg (rec_validating (getReturnsHRForHR hr1)))
     (NamespacedName (request hr1NsName)) \<and>
   \<not> fetch_fails (cfg (rec_validating (getReturnsHRForHR hr1))) cancelled
       (NamespacedName (request hr1NsName)) \<and>
   \<not> EventCh_ready nobody_receiving \<and> \<not> prefer_send nobody_receiving \<and>
   fst (Reconcile (rec_validating (getReturnsHRForHR hr1)) cancelled nobody_receiving
          (request hr1NsName) world0) = Returned Result_empty None \<and>
   EventCh (snd (Reconcile (rec_validating (getReturnsHRForHR hr1)) cancelled nobody_receiving
          (request hr1NsName) world0)) = [] \<and>
   EventCh_ready receiver_waiting \<and> prefer_send receiver_waiting \<and>
   fst (Reconcile (rec_validating (getReturnsHRForHR hr1)) cancelled receiver_waiting
          (request hr1NsName) world0) = Returned Result_empty None \<and>
   EventCh (snd (Reconcile (rec_validating (getReturnsHRForHR hr1)) cancelled receiver_waiting
          (request hr1NsName) world0)) =
     [offered_event (rec_validating (getReturnsHRForHR hr1)) cancelled (request hr1NsName)
        world0]"
  using
    cancelled_context_never_blocks
      [of cancelled "rec_validating (getReturnsHRForHR hr1)" "request hr1NsName"
        nobody_receiving world0]
    cancelled_context_never_blocks
      [of cancelled "rec_validating (getReturnsHRForHR hr1)" "request hr1NsName"
        receiver_waiting world0]
  by (simp add: fixture_defs filter_allows_def fetch_fails_def EventCh_def)

text \<open>
  C4. When the fetch fails with an error that is not a not-found error, Reconcile returns
  that error and sends no event.
\<close>

theorem fetch_error_is_returned_without_event:
  assumes "filter_allows (cfg r) (NamespacedName req)"
    and "Getter (cfg r) ctx (NamespacedName req) (dyn_type (ObjectType (cfg r))) = Inl e"
    and "\<not> IsNotFound e"
  shows "fst (Reconcile r ctx env req s) = Returned Result_empty (Some e) \<and>
         EventCh (snd (Reconcile r ctx env req s)) = EventCh s"
  using assms by (simp add: Reconcile_fetch_error observe_after)

theorem fetch_error_is_returned_without_event_witness:
  "filter_allows (cfg (rec_validating getReturnsGetError)) (NamespacedName (request hr1NsName)) \<and>
   \<not> IsNotFound getError \<and>
   fst (Reconcile (rec_validating getReturnsGetError) Background receiver_waiting
          (request hr1NsName) world0) = Returned Result_empty (Some getError) \<and>
   EventCh (snd (Reconcile (rec_validating getReturnsGetError) Background receiver_waiting
          (request hr1NsName) world0)) = []"
  using fetch_error_is_returned_without_event [of "rec_validating getReturnsGetError" "request hr1NsName" Background getError
      receiver_waiting world0]
  by (simp add: fixture_defs filter_allows_def EventCh_def)

text \<open>
  C5. When a configured filter rejects the identity, Reconcile logs the filter's reason and
  returns the empty result and a nil error. Nothing is sent, the Getter, the validator and
  the event recorder are not called, and nothing is allocated.
\<close>

theorem filtered_identity_stops_before_fetch:
  assumes "NamespacedNameFilter (cfg r) = Some f"
    and "\<not> fst (f (NamespacedName req))"
  shows "Reconcile r ctx env req s =
           (Returned Result_empty None,
            after s [] [Log (Info ''Reconciling the resource''),
                        Log (Info (snd (f (NamespacedName req))))]) \<and>
         EventCh (snd (Reconcile r ctx env req s)) = EventCh s \<and>
         Get_calls (snd (Reconcile r ctx env req s)) = Get_calls s \<and>
         Validator_calls (snd (Reconcile r ctx env req s)) = Validator_calls s \<and>
         Eventf_calls (snd (Reconcile r ctx env req s)) = Eventf_calls s \<and>
         heap (snd (Reconcile r ctx env req s)) = heap s"
proof -
  from assms have "filter_verdict (cfg r) (NamespacedName req) = Some (snd (f (NamespacedName req)))"
    by (cases "f (NamespacedName req)") (simp add: filter_verdict_def)
  then show ?thesis
    by (simp add: Reconcile_filtered observe_after)
qed

theorem filtered_identity_stops_before_fetch_witness:
  "NamespacedNameFilter (cfg (rec_filtering (getReturnsHRForHR hr2))) = Some hr1_only \<and>
   \<not> fst (hr1_only (NamespacedName (request hr2NsName))) \<and>
   Reconcile (rec_filtering (getReturnsHRForHR hr2)) Background receiver_waiting
     (request hr2NsName) world0 =
     (Returned Result_empty None,
      after world0 [] [Log (Info ''Reconciling the resource''), Log (Info ''ignore'')]) \<and>
   EventCh (snd (Reconcile (rec_filtering (getReturnsHRForHR hr2)) Background receiver_waiting
     (request hr2NsName) world0)) = [] \<and>
   Get_calls (snd (Reconcile (rec_filtering (getReturnsHRForHR hr2)) Background receiver_waiting
     (request hr2NsName) world0)) = []"
  using filtered_identity_stops_before_fetch [of "rec_filtering (getReturnsHRForHR hr2)" hr1_only "request hr2NsName" Background
      receiver_waiting world0]
  by (simp add: fixture_defs EventCh_def Get_calls_def)

text \<open>
  C6. Every call of Reconcile sends at most one event. It sends exactly one, an UpsertEvent
  if the object was found and valid and a DeleteEvent otherwise, when the filter lets the
  identity through, the fetch does not fail, the context is not cancelled and the channel
  takes the event.
\<close>

theorem at_most_one_event_per_Reconcile:
  "(\<exists>evs. EventCh (snd (Reconcile r ctx env req s)) = EventCh s @ evs \<and> length evs \<le> 1) \<and>
   (filter_allows (cfg r) (NamespacedName req) \<and>
    \<not> fetch_fails (cfg r) ctx (NamespacedName req) \<and> \<not> Done ctx \<and> EventCh_ready env \<longrightarrow>
      EventCh (snd (Reconcile r ctx env req s)) = EventCh s @ [offered_event r ctx req s])"
proof
  obtain cells xs where w: "snd (Reconcile r ctx env req s) = after s cells xs"
    and "sent xs = [] \<or>
         (sent xs = [offered_event r ctx req s] \<and> filter_allows (cfg r) (NamespacedName req) \<and>
          \<not> fetch_fails (cfg r) ctx (NamespacedName req) \<and> length cells = 1)"
    by (rule Reconcile_world)
  then have "EventCh (snd (Reconcile r ctx env req s)) = EventCh s @ sent xs \<and> length (sent xs) \<le> 1"
    by (auto simp add: observe_after)
  then show "\<exists>evs. EventCh (snd (Reconcile r ctx env req s)) = EventCh s @ evs \<and> length evs \<le> 1"
    by blast
next
  show "filter_allows (cfg r) (NamespacedName req) \<and>
    \<not> fetch_fails (cfg r) ctx (NamespacedName req) \<and> \<not> Done ctx \<and> EventCh_ready env \<longrightarrow>
      EventCh (snd (Reconcile r ctx env req s)) = EventCh s @ [offered_event r ctx req s]"
  proof
    assume a: "filter_allows (cfg r) (NamespacedName req) \<and>
      \<not> fetch_fails (cfg r) ctx (NamespacedName req) \<and> \<not> Done ctx \<and> EventCh_ready env"
    then obtain cell pre opn where
      "Reconcile r ctx env req s =
           send_or_cancel ctx env (offered_event r ctx req s, opn) (after s [cell] pre)"
      and "sent pre = []"
      using Reconcile_emission [of r req ctx env s] by blast
    with a show "EventCh (snd (Reconcile r ctx env req s)) = EventCh s @ [offered_event r ctx req s]"
      by (simp add: send_or_cancel_cases observe_after)
  qed
qed

theorem at_most_one_event_per_Reconcile_witness:
  "filter_allows (cfg (rec_validating (getReturnsHRForHR hr1))) (NamespacedName (request hr1NsName)) \<and>
   \<not> fetch_fails (cfg (rec_validating (getReturnsHRForHR hr1))) Background
       (NamespacedName (request hr1NsName)) \<and>
   \<not> Done Background \<and> EventCh_ready receiver_waiting \<and>
   EventCh (snd (Reconcile (rec_validating (getReturnsHRForHR hr1)) Background receiver_waiting
          (request hr1NsName) world0)) = [UpsertEvent \<lparr>dyn_type = ''HTTPRoute'', address = 1\<rparr>]"
  using at_most_one_event_per_Reconcile [of "rec_validating (getReturnsHRForHR hr1)" Background receiver_waiting
      "request hr1NsName" world0]
  by (simp add: fixture_defs filter_allows_def fetch_fails_def EventCh_def offered_event_def
      found_and_valid_def fresh_object_def)

text \<open>
  C7. Every event a call of Reconcile sends is either an UpsertEvent whose Resource is the
  object the Getter filled (the heap holds the fetched contents behind it), or a DeleteEvent
  of the configured ObjectType and the identity of the request. A DeleteEvent has no other
  field.
\<close>

theorem emitted_event_payloads:
  assumes "EventCh (snd (Reconcile r ctx env req s)) = EventCh s @ evs"
    and "ev \<in> set evs"
  shows "case ev of
           UpsertEvent p \<Rightarrow>
             p = fresh_object r s \<and>
             Getter (cfg r) ctx (NamespacedName req) (dyn_type (ObjectType (cfg r))) =
               Inr (heap (snd (Reconcile r ctx env req s)) ! address p)
         | DeleteEvent t n \<Rightarrow> t = ObjectType (cfg r) \<and> n = NamespacedName req"
proof -
  obtain cells xs where w: "snd (Reconcile r ctx env req s) = after s cells xs"
    and cells: "cells = [] \<or>
         (\<exists>cell. cells = [cell] \<and>
            (\<forall>d. Getter (cfg r) ctx (NamespacedName req) (dyn_type (ObjectType (cfg r))) = Inr d
                  \<longrightarrow> cell = d))"
    and sent: "sent xs = [] \<or>
         (sent xs = [offered_event r ctx req s] \<and> filter_allows (cfg r) (NamespacedName req) \<and>
          \<not> fetch_fails (cfg r) ctx (NamespacedName req) \<and> length cells = 1)"
    by (rule Reconcile_world)
  from assms(1) w have "evs = sent xs" by (simp add: observe_after)
  with assms(2) sent have ev: "ev = offered_event r ctx req s" and one: "length cells = 1"
    by auto
  show ?thesis
  proof (cases "found_and_valid (cfg r) ctx (NamespacedName req)")
    case False
    with ev show ?thesis by (simp add: offered_event_def)
  next
    case True
    then obtain d where
      d: "Getter (cfg r) ctx (NamespacedName req) (dyn_type (ObjectType (cfg r))) = Inr d"
      by (auto simp: found_and_valid_def split: sum.splits)
    with cells one have "cells = [d]" by auto
    with w have "heap (snd (Reconcile r ctx env req s)) ! length (heap s) = d" by simp
    with True ev d show ?thesis by (simp add: offered_event_def fresh_object_def)
  qed
qed

theorem emitted_event_payloads_witness:
  "EventCh (snd (Reconcile (rec_validating (getReturnsHRForHR hr1)) Background receiver_waiting
          (request hr1NsName) world0)) =
     EventCh world0 @ [UpsertEvent \<lparr>dyn_type = ''HTTPRoute'', address = 1\<rparr>] \<and>
   UpsertEvent \<lparr>dyn_type = ''HTTPRoute'', address = 1\<rparr> \<in>
     set [UpsertEvent \<lparr>dyn_type = ''HTTPRoute'', address = 1\<rparr>] \<and>
   Getter (cfg (rec_validating (getReturnsHRForHR hr1))) Background hr1NsName ''HTTPRoute'' =
     Inr (heap (snd (Reconcile (rec_validating (getReturnsHRForHR hr1)) Background
          receiver_waiting (request hr1NsName) world0)) ! 1)"
proof -
  have sent: "EventCh (snd (Reconcile (rec_validating (getReturnsHRForHR hr1)) Background
      receiver_waiting (request hr1NsName) world0)) =
     EventCh world0 @ [UpsertEvent \<lparr>dyn_type = ''HTTPRoute'', address = 1\<rparr>]"
    by (simp add: fixture_defs EventCh_def Reconcile_def
        filter_verdict_def send_or_cancel_def select_send_def step_defs)
  have mem: "UpsertEvent \<lparr>dyn_type = ''HTTPRoute'', address = 1\<rparr> \<in>
     set [UpsertEvent \<lparr>dyn_type = ''HTTPRoute'', address = 1\<rparr>]"
    by simp
  from emitted_event_payloads [OF sent mem] sent mem show ?thesis
    by (simp add: fixture_defs)
qed

text \<open>
  C8. Unless the fetch fails with an error that is not a not-found error, Reconcile returns
  the empty result and a nil error: when the filter rejects the identity, when the context
  is cancelled, and when the channel takes the event (upsert, delete after not-found, delete
  after a validation error). The one remaining case is the call that stays blocked in the
  select.
\<close>

theorem Result_empty_and_nil_error_unless_fetch_fails:
  assumes "\<not> (filter_allows (cfg r) (NamespacedName req) \<and>
              fetch_fails (cfg r) ctx (NamespacedName req))"
  shows "fst (Reconcile r ctx env req s) =
           (if \<not> filter_allows (cfg r) (NamespacedName req) \<or> Done ctx \<or> EventCh_ready env
            then Returned Result_empty None else Blocked)"
proof (cases "filter_allows (cfg r) (NamespacedName req)")
  case False
  then obtain msg where "filter_verdict (cfg r) (NamespacedName req) = Some msg"
    using filter_verdict_Some by blast
  with False show ?thesis by (simp add: Reconcile_filtered)
next
  case True
  with assms have "\<not> fetch_fails (cfg r) ctx (NamespacedName req)" by simp
  from Reconcile_emission [OF True this, of env s] obtain cell pre opn where
    "Reconcile r ctx env req s =
       send_or_cancel ctx env (offered_event r ctx req s, opn) (after s [cell] pre)"
    by blast
  with True show ?thesis by (simp add: send_or_cancel_cases)
qed

theorem Result_empty_and_nil_error_unless_fetch_fails_witness:
  "\<not> (filter_allows (cfg (rec_validating (getReturnsHRForHR hr2))) (NamespacedName (request hr2NsName)) \<and>
      fetch_fails (cfg (rec_validating (getReturnsHRForHR hr2))) cancelled
        (NamespacedName (request hr2NsName))) \<and>
   Done cancelled \<and>
   fst (Reconcile (rec_validating (getReturnsHRForHR hr2)) cancelled nobody_receiving
          (request hr2NsName) world0) = Returned Result_empty None"
  using Result_empty_and_nil_error_unless_fetch_fails [of "rec_validating (getReturnsHRForHR hr2)" "request hr2NsName" cancelled
      nobody_receiving world0]
  by (simp add: fixture_defs filter_allows_def fetch_fails_def)

text \<open>
  C9. When the validator rejects a fetched object, the warning is recorded before the
  select: the trace of the call is the fetch, the validation, the error log line and the
  \<^verbatim>\<open>Eventf\<close> call, followed by whatever the select does. The warning is recorded exactly
  once in every case, also when the context is cancelled and no DeleteEvent is sent.
\<close>

theorem warning_recorded_before_select:
  assumes "filter_allows (cfg r) (NamespacedName req)"
    and "Getter (cfg r) ctx (NamespacedName req) (dyn_type (ObjectType (cfg r))) = Inr d"
    and "WebhookValidator (cfg r) = Some v"
    and "v (dyn_type (ObjectType (cfg r))) d = Some ve"
  shows "trace (snd (Reconcile r ctx env req s)) =
           trace s @
           [Log (Info ''Reconciling the resource''),
            GetCalled (NamespacedName req) (fresh_object r s) zero_value,
            ValidatorCalled (fresh_object r s),
            Log (Error ve webhookValidationErrorLogMsg),
            Eventf (rejection_warning (fresh_object r s) ve)] @
           (if EventCh_ready env \<and> (Done ctx \<longrightarrow> prefer_send env)
            then [Sent (DeleteEvent (ObjectType (cfg r)) (NamespacedName req)),
                  Log (Info ''Deleted the resource'')]
            else if Done ctx
            then [Log (Info ''Did not process the resource because the context was canceled'')]
            else []) \<and>
         Eventf_calls (snd (Reconcile r ctx env req s)) =
           Eventf_calls s @ [rejection_warning (fresh_object r s) ve] \<and>
         (Done ctx \<and> \<not> EventCh_ready env \<longrightarrow>
            EventCh (snd (Reconcile r ctx env req s)) = EventCh s)"
  using assms
  by (simp add: Reconcile_found_invalid send_or_cancel_cases observe_after)

theorem warning_recorded_before_select_witness:
  "filter_allows (cfg (rec_validating (getReturnsHRForHR hr2))) (NamespacedName (request hr2NsName)) \<and>
   hr2IsInvalidValidator ''HTTPRoute'' hr2 = Some (PlainError ''test'') \<and>
   Done cancelled \<and> \<not> EventCh_ready nobody_receiving \<and>
   trace (snd (Reconcile (rec_validating (getReturnsHRForHR hr2)) cancelled nobody_receiving
          (request hr2NsName) world0)) =
     [Log (Info ''Reconciling the resource''),
      GetCalled hr2NsName \<lparr>dyn_type = ''HTTPRoute'', address = 1\<rparr> zero_value,
      ValidatorCalled \<lparr>dyn_type = ''HTTPRoute'', address = 1\<rparr>,
      Log (Error (PlainError ''test'') webhookValidationErrorLogMsg),
      Eventf (rejection_warning \<lparr>dyn_type = ''HTTPRoute'', address = 1\<rparr> (PlainError ''test'')),
      Log (Info ''Did not process the resource because the context was canceled'')] \<and>
   Eventf_calls (snd (Reconcile (rec_validating (getReturnsHRForHR hr2)) cancelled
          nobody_receiving (request hr2NsName) world0)) =
     [rejection_warning \<lparr>dyn_type = ''HTTPRoute'', address = 1\<rparr> (PlainError ''test'')] \<and>
   EventCh (snd (Reconcile (rec_validating (getReturnsHRForHR hr2)) cancelled
          nobody_receiving (request hr2NsName) world0)) = []"
  using warning_recorded_before_select [of "rec_validating (getReturnsHRForHR hr2)" "request hr2NsName" cancelled hr2
      hr2IsInvalidValidator "PlainError ''test''" nobody_receiving world0]
  by (simp add: fixture_defs filter_allows_def EventCh_def Eventf_calls_def fresh_object_def)

text \<open>
  C10. \<^verbatim>\<open>newObject\<close> allocates a zero value of the dynamic type of the configured
  ObjectType at an address of its own. The object handed to the Getter is that one. Every
  cell that was on the heap before the call, the ObjectType template among them, is
  unchanged after it. The configuration is a parameter of the function and has no successor
  value.
\<close>

theorem fetch_uses_fresh_object_and_template_is_kept:
  assumes "address (ObjectType (cfg r)) < length (heap s)"
  shows "newObject (ObjectType (cfg r)) s = (fresh_object r s, after s [zero_value] []) \<and>
         dyn_type (fresh_object r s) = dyn_type (ObjectType (cfg r)) \<and>
         address (fresh_object r s) \<noteq> address (ObjectType (cfg r)) \<and>
         (Get_calls (snd (Reconcile r ctx env req s)) = Get_calls s \<or>
          Get_calls (snd (Reconcile r ctx env req s)) =
            Get_calls s @ [(NamespacedName req, fresh_object r s, zero_value)]) \<and>
         take (length (heap s)) (heap (snd (Reconcile r ctx env req s))) = heap s \<and>
         heap (snd (Reconcile r ctx env req s)) ! address (ObjectType (cfg r)) =
           heap s ! address (ObjectType (cfg r))"
proof -
  obtain cells xs where w: "snd (Reconcile r ctx env req s) = after s cells xs"
    and g: "getter_calls xs = [] \<or>
         getter_calls xs = [(NamespacedName req, fresh_object r s, zero_value)]"
    by (rule Reconcile_world)
  have "newObject (ObjectType (cfg r)) s = (fresh_object r s, after s [zero_value] [])"
    by (cases s) (simp add: newObject_def fresh_object_def after_def)
  moreover from assms have "address (fresh_object r s) \<noteq> address (ObjectType (cfg r))"
    by (simp add: fresh_object_def)
  moreover from g have "Get_calls (snd (Reconcile r ctx env req s)) = Get_calls s \<or>
          Get_calls (snd (Reconcile r ctx env req s)) =
            Get_calls s @ [(NamespacedName req, fresh_object r s, zero_value)]"
    by (auto simp add: w observe_after)
  moreover from assms have "heap (snd (Reconcile r ctx env req s)) ! address (ObjectType (cfg r)) =
           heap s ! address (ObjectType (cfg r))"
    by (simp add: w nth_append)
  ultimately show ?thesis
    by (simp add: w fresh_object_def)
qed

theorem fetch_uses_fresh_object_and_template_is_kept_witness:
  "address (ObjectType (cfg (rec_plain (getReturnsHRForHR hr1)))) < length (heap world0) \<and>
   fst (newObject (ObjectType (cfg (rec_plain (getReturnsHRForHR hr1)))) world0) =
     \<lparr>dyn_type = ''HTTPRoute'', address = 1\<rparr> \<and>
   Get_calls (snd (Reconcile (rec_plain (getReturnsHRForHR hr1)) Background receiver_waiting
       (request hr1NsName) world0)) =
     [(hr1NsName, \<lparr>dyn_type = ''HTTPRoute'', address = 1\<rparr>, zero_value)] \<and>
   heap (snd (Reconcile (rec_plain (getReturnsHRForHR hr1)) Background receiver_waiting
       (request hr1NsName) world0)) = [zero_value, hr1] \<and>
   heap (snd (Reconcile (rec_plain (getReturnsHRForHR hr1)) Background receiver_waiting
       (request hr1NsName) world0)) ! address HTTPRoute_template = heap world0 ! 0"
  using fetch_uses_fresh_object_and_template_is_kept [of "rec_plain (getReturnsHRForHR hr1)" world0 Background receiver_waiting
      "request hr1NsName"]
  by (simp add: fixture_defs Get_calls_def fresh_object_def Reconcile_def
      filter_verdict_def send_or_cancel_def select_send_def step_defs)

end
